theory Spec2Isabelle
  imports Complex_Main "HOL-Library.Sublist"
begin

section \<open>Values exchanged with the collaborators\<close>

text \<open>
  The tool arguments arrive as a JSON object decoded into a Python dict. \<open>json.loads\<close>
  gives an \<open>int\<close> of any size for an integer literal and a \<open>float\<close> otherwise.
  \<open>JNum\<close> is a finite float other than \<open>-0.0\<close>, kept by the rational it denotes;
  \<open>-0.0\<close>, the two infinities and NaN are values of their own. Python strings are
  kept as their UTF-8 bytes.
\<close>

datatype jvalue =
    JNull
  | JBool bool
  | JInt int
  | JNum rat
  | JNegZero
  | JInf
  | JNegInf
  | JNaN
  | JStr string
  | JArr "jvalue list"
  | JObj "(string \<times> jvalue) list"

text \<open>\<open>StoreError\<close> is whatever \<open>user_ref.update\<close> raised.\<close>

datatype py_error =
    KeyError string
  | ValueError
  | TypeError
  | OverflowError
  | StoreError

text \<open>
  What \<open>user_ref.update\<close> is given: plain values, the sentinel
  \<open>firestore.SERVER_TIMESTAMP\<close>, the transform \<open>firestore.ArrayUnion\<close> and nested dicts.
\<close>

datatype fs_value =
    Val jvalue
  | SERVER_TIMESTAMP
  | ArrayUnion "fs_value list"
  | MapValue "(string \<times> fs_value) list"

text \<open>
  The store is a collaborator: whether an update is accepted is its answer, given with
  the call that triggers it.
\<close>

datatype store_outcome = WriteOk | WriteFails

record message =
  role :: string
  content :: string

record OpenAILLMContext =
  messages :: "message list"
  tools :: "jvalue list"

datatype frame = OpenAILLMContextFrame OpenAILLMContext | EndFrame

datatype direction = DOWNSTREAM | UPSTREAM

text \<open>
  Everything that leaves the process, in the order it happens: a completed
  \<open>db.collection(c).document(d).update(fields)\<close>, a frame handed to
  \<open>llm.process_frame\<close>, frames handed to \<open>task.queue_frames\<close>, and an exception that
  left a registered function. A frame refers to the context object; the trace keeps the
  context as it was when the frame was handed over.
\<close>

datatype effect =
    StoreUpdate string string "(string \<times> fs_value) list"
  | ProcessFrame frame direction
  | QueueFrames "frame list"
  | Raised py_error

record world =
  ctx :: OpenAILLMContext
  trace :: "effect list"

record CollectionProcessor =
  customer_id :: string
  overdue_amount :: rat

section \<open>The context operations used by the program\<close>

definition add_message :: "OpenAILLMContext \<Rightarrow> message \<Rightarrow> OpenAILLMContext" where
  "add_message c m = c\<lparr>messages := messages c @ [m]\<rparr>"

definition set_tools :: "OpenAILLMContext \<Rightarrow> jvalue list \<Rightarrow> OpenAILLMContext" where
  "set_tools c ts = c\<lparr>tools := ts\<rparr>"

definition messages_clear :: "OpenAILLMContext \<Rightarrow> OpenAILLMContext" where
  "messages_clear c = c\<lparr>messages := []\<rparr>"

section \<open>Formatting with \<open>:,.2f\<close>\<close>

definition digit_char :: "nat \<Rightarrow> char" where
  "digit_char n = ''0123456789'' ! n"

function dec_digits :: "nat \<Rightarrow> string" where
  "dec_digits n =
     (if n < 10 then [digit_char n] else dec_digits (n div 10) @ [digit_char (n mod 10)])"
  by pat_completeness auto
termination
  by (relation "measure id") auto

declare dec_digits.simps [simp del]

text \<open>The thousands separator, on the digits read from the right.\<close>

fun group3_rev :: "string \<Rightarrow> string" where
  "group3_rev (a # b # c # d # rest) = a # b # c # CHR '','' # group3_rev (d # rest)"
| "group3_rev ds = ds"

definition group_thousands :: "string \<Rightarrow> string" where
  "group_thousands ds = rev (group3_rev (rev ds))"

text \<open>Hundredths of the absolute value, correctly rounded, ties to even.\<close>

definition round_cents :: "rat \<Rightarrow> nat" where
  "round_cents x =
     (let y = \<bar>x\<bar> * 100; f = \<lfloor>y\<rfloor>; r = y - of_int f
      in nat (if r < 1 / 2 then f
              else if 1 / 2 < r then f + 1
              else if even f then f else f + 1))"

definition format_money :: "rat \<Rightarrow> string" where
  "format_money x =
     (let c = round_cents x
      in (if x < 0 then ''-'' else []) @ group_thousands (dec_digits (c div 100)) @ ''.'' @
         [digit_char (c div 10 mod 10), digit_char (c mod 10)])"

text \<open>
  \<open>float(i)\<close> for a Python \<open>int\<close>: the nearest double, ties to even, as the integer
  it denotes; OverflowError, here \<open>None\<close>, when the rounded value reaches
  \<open>2 ^ 1024\<close>. A double has 53 significant bits.
\<close>

function bit_length :: "nat \<Rightarrow> nat" where
  "bit_length n = (if n = 0 then 0 else Suc (bit_length (n div 2)))"
  by pat_completeness auto
termination
  by (relation "measure id") auto

declare bit_length.simps [simp del]

definition float_of_int :: "int \<Rightarrow> int option" where
  "float_of_int i =
     (let n = nat \<bar>i\<bar>;
          e = bit_length n - 53;
          q = n div 2 ^ e;
          r = n mod 2 ^ e;
          q' = (if 2 * r < 2 ^ e then q
                else if 2 ^ e < 2 * r then q + 1
                else if even q then q else q + 1);
          m = q' * 2 ^ e
      in if 2 ^ 1024 \<le> m then None else Some (if i < 0 then - int m else int m))"

text \<open>
  \<open>format(v, ',.2f')\<close> on a decoded JSON value. A float formats; an \<open>int\<close> or a
  \<open>bool\<close> is converted to float first, which can overflow; a string raises
  ValueError, the others raise TypeError.
\<close>

fun py_format_money :: "jvalue \<Rightarrow> py_error + string" where
  "py_format_money (JNum x) = Inr (format_money x)"
| "py_format_money JNegZero = Inr ''-0.00''"
| "py_format_money JInf = Inr ''inf''"
| "py_format_money JNegInf = Inr ''-inf''"
| "py_format_money JNaN = Inr ''nan''"
| "py_format_money (JInt i) =
     (case float_of_int i of
        None \<Rightarrow> Inl OverflowError
      | Some x \<Rightarrow> Inr (format_money (of_int x)))"
| "py_format_money (JBool b) = Inr (format_money (if b then 1 else 0))"
| "py_format_money (JStr s) = Inl ValueError"
| "py_format_money JNull = Inl TypeError"
| "py_format_money (JArr vs) = Inl TypeError"
| "py_format_money (JObj kvs) = Inl TypeError"

text \<open>
  \<open>format(v, '')\<close> is \<open>str(v)\<close>: a string is itself. The text Python prints for the other
  values is the parameter \<open>str_other\<close>.
\<close>

fun py_str :: "(jvalue \<Rightarrow> string) \<Rightarrow> jvalue \<Rightarrow> string" where
  "py_str str_other (JStr s) = s"
| "py_str str_other v = str_other v"

section \<open>The two instructions\<close>

definition rupee :: string where
  "rupee = [CHR 0xE2, CHR 0x82, CHR 0xB9]"

definition persona_prompt :: "string \<Rightarrow> rat \<Rightarrow> string" where
  \<open>persona_prompt customer_name amt =
     ''You are Sarah from ABC Bank's collections department. You're calling regarding an overdue loan payment of '' @ rupee @ format_money amt @ ''. \<newline>'' @
     ''                You're speaking with '' @ customer_name @ ''. Your job is to:\<newline>'' @
     ''\<newline>'' @
     ''                1. Introduce yourself professionally and verify the customer's identity\<newline>'' @
     ''                2. Inform them about their overdue payment of '' @ rupee @ format_money amt @ ''\<newline>'' @
     ''                3. Emphasize that:\<newline>'' @
     ''                   - Late payments severely impact their CIBIL score\<newline>'' @
     ''                   - A low CIBIL score will affect their future loan eligibility\<newline>'' @
     ''                   - This may impact their ability to get credit cards, loans, or mortgages\<newline>'' @
     ''                4. Get a firm commitment on a repayment date and amount\<newline>'' @
     ''                \<newline>'' @
     ''                Be firm but professional. Use pauses by inserting "-" where needed. Use two question marks for emphasis.\<newline>'' @
     ''                If the customer tries to avoid committing to a date, remind them about the CIBIL score impact.\<newline>'' @
     ''                \<newline>'' @
     ''                Start by introducing yourself and confirming you're speaking with '' @ customer_name @ ''.''\<close>

definition closing_prompt :: "string \<Rightarrow> string \<Rightarrow> string" where
  \<open>closing_prompt amount_text date_text =
     ''Thank the customer for their commitment to pay '' @ rupee @ amount_text @ '' by '' @ date_text @ ''. Then:\<newline>'' @
     ''            1. Clearly restate their commitment to pay '' @ rupee @ amount_text @ '' by '' @ date_text @ ''\<newline>'' @
     ''            2. Remind them that keeping this commitment is crucial for their CIBIL score\<newline>'' @
     ''            3. Mention that failing to pay by '' @ date_text @ '' may result in further action\<newline>'' @
     ''            4. End the call professionally and courteously\<newline>'' @
     ''            \<newline>'' @
     ''            Keep your closing brief but firm.''\<close>

section \<open>CollectionProcessor\<close>

definition save_repayment_date_schema :: jvalue where
  "save_repayment_date_schema =
     JObj [
       (''type'', JStr ''function''),
       (''function'', JObj [
         (''name'', JStr ''save_repayment_date''),
         (''description'', JStr ''Save the promised repayment date from the customer''),
         (''parameters'', JObj [
           (''type'', JStr ''object''),
           (''properties'', JObj [
             (''repayment_date'', JObj [
               (''type'', JStr ''string''),
               (''description'',
                  JStr ''The date the customer promises to pay, in YYYY-MM-DD format'')]),
             (''amount'', JObj [
               (''type'', JStr ''number''),
               (''description'', JStr ''The amount the customer promises to pay'')])]),
           (''required'', JArr [JStr ''repayment_date'', JStr ''amount''])])])]"

text \<open>\<open>__init__\<close>: the new object and the context it was given, after the two calls.\<close>

definition CollectionProcessor_init ::
  "OpenAILLMContext \<Rightarrow> string \<Rightarrow> string \<Rightarrow> rat \<Rightarrow> CollectionProcessor \<times> OpenAILLMContext" where
  "CollectionProcessor_init c cid customer_name amt =
     (let c1 = add_message c \<lparr>role = ''system'', content = persona_prompt customer_name amt\<rparr>;
          c2 = set_tools c1 [save_repayment_date_schema]
      in (\<lparr>customer_id = cid, overdue_amount = amt\<rparr>, c2))"

text \<open>The same constructor seen from the whole world: only the context is touched.\<close>

definition construct :: "string \<Rightarrow> string \<Rightarrow> rat \<Rightarrow> world \<Rightarrow> CollectionProcessor \<times> world" where
  "construct cid customer_name amt w =
     (let (p, c) = CollectionProcessor_init (ctx w) cid customer_name amt
      in (p, w\<lparr>ctx := c\<rparr>))"

text \<open>Reading a tool schema, as the model integration does.\<close>

fun jget :: "string \<Rightarrow> jvalue \<Rightarrow> jvalue option" where
  "jget k (JObj kvs) = map_of kvs k"
| "jget k v = None"

definition tool_name :: "jvalue \<Rightarrow> jvalue option" where
  "tool_name t = (case jget ''function'' t of None \<Rightarrow> None | Some f \<Rightarrow> jget ''name'' f)"

definition tool_required :: "jvalue \<Rightarrow> jvalue option" where
  "tool_required t =
     (case jget ''function'' t of
        None \<Rightarrow> None
      | Some f \<Rightarrow> (case jget ''parameters'' f of None \<Rightarrow> None | Some p \<Rightarrow> jget ''required'' p))"

text \<open>The dict handed to \<open>user_ref.update\<close>, in the order the source writes it.\<close>

definition commitment_update :: "jvalue \<Rightarrow> jvalue \<Rightarrow> rat \<Rightarrow> (string \<times> fs_value) list" where
  "commitment_update d a overdue =
     [(''promised_repayment_date'', Val d),
      (''promised_amount'', Val a),
      (''overdue_amount'', Val (JNum overdue)),
      (''commitment_made_at'', SERVER_TIMESTAMP),
      (''last_contact'', SERVER_TIMESTAMP),
      (''contact_type'', Val (JStr ''phone_call'')),
      (''commitment_status'', Val (JStr ''pending'')),
      (''payment_history'', ArrayUnion [MapValue
         [(''date'', SERVER_TIMESTAMP),
          (''promised_date'', Val d),
          (''promised_amount'', Val a),
          (''status'', Val (JStr ''pending''))]])]"

text \<open>
  \<open>save_repayment_date\<close>. The dict literal reads \<open>args["repayment_date"]\<close> and then
  \<open>args["amount"]\<close> before \<open>update\<close> is called, so a missing key raises KeyError with
  nothing written. The f-string is built after the write; it formats the amount first.
  The result is the world as the call leaves it and the exception, if one was raised.
  The log line is left out; \<open>llm\<close> shows as the frame it is handed, and
  \<open>result_callback\<close> is never called by the source.
\<close>

definition save_repayment_date ::
  "(jvalue \<Rightarrow> string) \<Rightarrow> CollectionProcessor \<Rightarrow> string \<Rightarrow> string \<Rightarrow> (string \<rightharpoonup> jvalue) \<Rightarrow>
     store_outcome \<Rightarrow> world \<Rightarrow> world \<times> py_error option" where
  "save_repayment_date str_other self function_name tool_call_id args outcome w =
     (case args ''repayment_date'' of
        None \<Rightarrow> (w, Some (KeyError ''repayment_date''))
      | Some d \<Rightarrow>
     (case args ''amount'' of
        None \<Rightarrow> (w, Some (KeyError ''amount''))
      | Some a \<Rightarrow>
     (case outcome of
        WriteFails \<Rightarrow> (w, Some StoreError)
      | WriteOk \<Rightarrow>
     (let w1 = w\<lparr>trace := trace w @
                 [StoreUpdate ''users'' (customer_id self)
                    (commitment_update d a (overdue_amount self))]\<rparr>
      in case py_format_money a of
           Inl e \<Rightarrow> (w1, Some e)
         | Inr amount_text \<Rightarrow>
             (let c1 = add_message (ctx w1)
                         \<lparr>role = ''system'',
                          content = closing_prompt amount_text (py_str str_other d)\<rparr>;
                  c2 = set_tools c1 []
              in (w1\<lparr>ctx := c2,
                      trace := trace w1 @ [ProcessFrame (OpenAILLMContextFrame c2) DOWNSTREAM]\<rparr>,
                  None))))))"

section \<open>The Firestore client\<close>

text \<open>
  Between the handler and the store sits the Firestore client library, which is not part
  of the repository. \<open>update\<close> encodes the dict before any request is sent. It walks the
  dict, through nested dicts, and takes \<open>SERVER_TIMESTAMP\<close> or an \<open>ArrayUnion\<close>
  found as the value of a field for a transform. The elements of an \<open>ArrayUnion\<close> are
  encoded as plain values, dicts included, and encoding a sentinel as a plain value
  raises TypeError. This is the client's rule as far as the handler's dict goes.
\<close>

fun plain_value :: "fs_value \<Rightarrow> bool" where
  "plain_value (Val v) = True"
| "plain_value SERVER_TIMESTAMP = False"
| "plain_value (ArrayUnion vs) = False"
| "plain_value (MapValue kvs) = list_all plain_value (map snd kvs)"

fun field_value :: "fs_value \<Rightarrow> bool" where
  "field_value (Val v) = True"
| "field_value SERVER_TIMESTAMP = True"
| "field_value (ArrayUnion vs) = list_all plain_value vs"
| "field_value (MapValue kvs) = list_all field_value (map snd kvs)"

text \<open>
  What \<open>update\<close> answers for a dict when the store would answer \<open>answer\<close>: a dict that
  does not encode never reaches the store.
\<close>

definition client_update :: "(string \<times> fs_value) list \<Rightarrow> store_outcome \<Rightarrow> store_outcome" where
  "client_update doc answer = (if list_all field_value (map snd doc) then answer else WriteFails)"

text \<open>The answer the handler gets for the dict it builds from its arguments.\<close>

definition answer_of_client ::
  "CollectionProcessor \<Rightarrow> (string \<rightharpoonup> jvalue) \<Rightarrow> store_outcome \<Rightarrow> store_outcome" where
  "answer_of_client self args answer =
     (case args ''repayment_date'' of
        None \<Rightarrow> answer
      | Some d \<Rightarrow>
          (case args ''amount'' of
             None \<Rightarrow> answer
           | Some a \<Rightarrow> client_update (commitment_update d a (overdue_amount self)) answer))"

section \<open>main and the two transport handlers\<close>

definition main_customer_id :: string where
  "main_customer_id = ''chad_bailey''"

definition main_customer_name :: string where
  "main_customer_name = ''Chad Bailey''"

definition main_overdue_amount :: rat where
  "main_overdue_amount = 25000"

text \<open>
  Lines 161 to 164: an empty context, then the first CollectionProcessor. Its
  \<open>save_repayment_date\<close> is the function registered with the model service (line 167).
\<close>

definition main_setup :: "CollectionProcessor \<times> world" where
  "main_setup =
     (let c0 = \<lparr>messages = [], tools = []\<rparr>;
          (collection, c) =
             CollectionProcessor_init c0 main_customer_id main_customer_name main_overdue_amount
      in (collection, \<lparr>ctx = c, trace = []\<rparr>))"

definition main_collection :: CollectionProcessor where
  "main_collection = fst main_setup"

definition main_world :: world where
  "main_world = snd main_setup"

text \<open>
  \<open>on_client_connected\<close>: the processor built here is a local of the handler; the
  registered function stays the one of \<open>main_collection\<close>.
\<close>

definition on_client_connected :: "nat \<Rightarrow> world \<Rightarrow> world" where
  "on_client_connected client w =
     (let c1 = messages_clear (ctx w);
          (collection, c2) =
             CollectionProcessor_init c1 main_customer_id main_customer_name main_overdue_amount
      in w\<lparr>ctx := c2, trace := trace w @ [QueueFrames [OpenAILLMContextFrame c2]]\<rparr>)"

definition on_client_disconnected :: "nat \<Rightarrow> world \<Rightarrow> world" where
  "on_client_disconnected client w = w\<lparr>trace := trace w @ [QueueFrames [EndFrame]]\<rparr>"

section \<open>What reaches the program while it runs\<close>

text \<open>
  The transport raises the two client events. The context aggregators append the user's
  and the assistant's messages. The model service delivers a function call with its
  name, its call id and its decoded arguments; the store then answers the write.
\<close>

datatype event =
    ClientConnected nat
  | ClientDisconnected nat
  | Aggregated message
  | FunctionCall string string "string \<rightharpoonup> jvalue" store_outcome

text \<open>
  A context advertises a function when one of its tool schemas carries the name. The
  program never asks this question: the service runs the function registered under the
  name of the call (line 167), and the handler checks nothing.
\<close>

definition advertised :: "OpenAILLMContext \<Rightarrow> string \<Rightarrow> bool" where
  "advertised c fn = (Some (JStr fn) \<in> set (map tool_name (tools c)))"

definition registered_name :: string where
  "registered_name = ''save_repayment_date''"

definition deliver ::
  "(jvalue \<Rightarrow> string) \<Rightarrow> string \<Rightarrow> string \<Rightarrow> (string \<rightharpoonup> jvalue) \<Rightarrow> store_outcome \<Rightarrow> world \<Rightarrow> world" where
  "deliver str_other fn tool_call_id args outcome w =
     (case save_repayment_date str_other main_collection fn tool_call_id args outcome w of
        (w', None) \<Rightarrow> w'
      | (w', Some e) \<Rightarrow> w'\<lparr>trace := trace w' @ [Raised e]\<rparr>)"

fun step :: "(jvalue \<Rightarrow> string) \<Rightarrow> event \<Rightarrow> world \<Rightarrow> world" where
  "step str_other (ClientConnected client) w = on_client_connected client w"
| "step str_other (ClientDisconnected client) w = on_client_disconnected client w"
| "step str_other (Aggregated m) w = w\<lparr>ctx := add_message (ctx w) m\<rparr>"
| "step str_other (FunctionCall fn tool_call_id args outcome) w =
     (if fn = registered_name
      then deliver str_other fn tool_call_id args outcome w
      else w)"

fun run :: "(jvalue \<Rightarrow> string) \<Rightarrow> event list \<Rightarrow> world \<Rightarrow> world" where
  "run str_other [] w = w"
| "run str_other (e # es) w = run str_other es (step str_other e w)"

fun is_store_update :: "effect \<Rightarrow> bool" where
  "is_store_update (StoreUpdate c d doc) = True"
| "is_store_update e = False"

definition store_writes :: "effect list \<Rightarrow> effect list" where
  "store_writes tr = filter is_store_update tr"


fun is_function_call :: "event \<Rightarrow> bool" where
  "is_function_call (FunctionCall fn tool_call_id args outcome) = True"
| "is_function_call e = False"

section \<open>Observations and sample inputs\<close>

text \<open>What a call of the handler added to the trace.\<close>

definition new_effects :: "world \<Rightarrow> world \<Rightarrow> effect list" where
  "new_effects w w' = drop (length (trace w)) (trace w')"

text \<open>
  A sample call, on a context that still advertises the tool,
  for the processor that \<open>main\<close> builds.
\<close>

definition args0 :: "string \<rightharpoonup> jvalue" where
  "args0 = [''repayment_date'' \<mapsto> JStr ''2025-03-01'', ''amount'' \<mapsto> JNum 500]"

definition w0 :: world where
  "w0 = \<lparr>ctx = \<lparr>messages = [], tools = [save_repayment_date_schema]\<rparr>, trace = []\<rparr>"

definition chad :: CollectionProcessor where
  "chad = \<lparr>customer_id = ''chad_bailey'', overdue_amount = 25000\<rparr>"



text \<open>
  What every connect leaves in the context: the record has no other field, so nothing of
  the context before the connect is left.
\<close>

definition connected_context :: OpenAILLMContext where
  "connected_context =
     \<lparr>messages = [\<lparr>role = ''system'',
                    content = persona_prompt main_customer_name main_overdue_amount\<rparr>],
      tools = [save_repayment_date_schema]\<rparr>"


definition user_says :: message where
  "user_says = \<lparr>role = ''user'', content = ''I will pay 500 on the first of March''\<rparr>"

text \<open>Two calls in a row, each with a commitment.\<close>

definition two_calls :: "event list" where
  "two_calls =
     [ClientConnected 1,
      FunctionCall registered_name ''call_1'' args0 WriteOk,
      ClientDisconnected 1,
      ClientConnected 2,
      FunctionCall registered_name ''call_2'' args0 WriteOk]"

section \<open>Evaluating the formatter\<close>

lemma dec_digits_small: "n < 10 \<Longrightarrow> dec_digits n = [digit_char n]"
  by (simp add: dec_digits.simps)

lemma dec_digits_large:
  "10 \<le> n \<Longrightarrow> dec_digits n = dec_digits (n div 10) @ [digit_char (n mod 10)]"
  by (subst dec_digits.simps) simp

lemma round_cents_of_int: "round_cents (of_int n) = nat (\<bar>n\<bar> * 100)"
proof -
  have "\<bar>rat_of_int n\<bar> * 100 = of_int (\<bar>n\<bar> * 100)"
    by simp
  then show ?thesis
    unfolding round_cents_def Let_def by (simp del: of_int_mult of_int_abs)
qed

lemma round_cents_numeral: "round_cents (numeral k) = numeral k * 100"
  using round_cents_of_int [of "numeral k"] by simp

lemma round_cents_neg_numeral: "round_cents (- numeral k) = numeral k * 100"
  using round_cents_of_int [of "- numeral k"] by simp

lemma bit_length_zero: "bit_length 0 = 0"
  by (simp add: bit_length.simps)

lemma bit_length_pos: "0 < n \<Longrightarrow> bit_length n = Suc (bit_length (n div 2))"
  by (subst bit_length.simps) simp

lemma float_of_int_500: "float_of_int 500 = Some 500"
  by (simp add: float_of_int_def Let_def bit_length_zero bit_length_pos)

text \<open>Above \<open>2 ^ 53\<close> digits are lost: \<open>2 ^ 53 + 1\<close> becomes \<open>2 ^ 53\<close>.\<close>

lemma float_of_int_rounds:
  "float_of_int 9007199254740993 = Some 9007199254740992"
  by (simp add: float_of_int_def Let_def bit_length_zero bit_length_pos)

lemma bit_length_double: "0 < n \<Longrightarrow> bit_length (2 * n) = Suc (bit_length n)"
  by (subst bit_length.simps) simp

lemma bit_length_power2: "bit_length (2 ^ k) = Suc k"
proof (induction k)
  case 0
  show ?case by (simp add: bit_length_pos bit_length_zero)
next
  case (Suc k)
  then show ?case by (simp add: bit_length_double)
qed

text \<open>From \<open>2 ^ 1024\<close> the conversion overflows.\<close>

lemma float_of_int_overflows: "float_of_int (2 ^ 1024) = None"
proof -
  have n: "nat \<bar>2 ^ 1024 :: int\<bar> = 2 ^ 1024"
    by (simp add: nat_power_eq)
  have e: "bit_length (2 ^ 1024) - 53 = 972"
    by (simp only: bit_length_power2)
  have q: "(2::nat) ^ 1024 div 2 ^ 972 = 2 ^ 52"
    by (simp add: power_diff [symmetric])
  have r: "(2::nat) ^ 1024 mod 2 ^ 972 = 0"
    by (simp add: le_imp_power_dvd)
  have m: "(2::nat) ^ 52 * 2 ^ 972 = 2 ^ 1024"
    by (simp add: power_add [symmetric])
  show ?thesis
    unfolding float_of_int_def Let_def n e q r by simp
qed

lemmas format_money_eval =
  format_money_def round_cents_numeral round_cents_neg_numeral dec_digits_small
  dec_digits_large digit_char_def group_thousands_def

lemma format_money_25000: "format_money 25000 = ''25,000.00''"
  by (simp add: format_money_eval)

lemma format_money_500: "format_money 500 = ''500.00''"
  by (simp add: format_money_eval)

lemma format_money_minus_5: "format_money (- 5) = ''-5.00''"
  by (simp add: format_money_eval)

section \<open>The handler, case by case\<close>

lemma tool_name_schema: "tool_name save_repayment_date_schema = Some (JStr ''save_repayment_date'')"
  by (simp add: tool_name_def save_repayment_date_schema_def)

lemma tool_required_schema:
  "tool_required save_repayment_date_schema = Some (JArr [JStr ''repayment_date'', JStr ''amount''])"
  by (simp add: tool_required_def save_repayment_date_schema_def)

lemma init_context:
  "snd (CollectionProcessor_init c cid customer_name amt) =
     c\<lparr>messages := messages c @ [\<lparr>role = ''system'', content = persona_prompt customer_name amt\<rparr>],
       tools := [save_repayment_date_schema]\<rparr>"
  by (simp add: CollectionProcessor_init_def add_message_def set_tools_def)

lemma init_object:
  "fst (CollectionProcessor_init c cid customer_name amt) = \<lparr>customer_id = cid, overdue_amount = amt\<rparr>"
  by (simp add: CollectionProcessor_init_def)

lemma save_ok:
  assumes "args ''repayment_date'' = Some d" and "args ''amount'' = Some a"
    and "py_format_money a = Inr t"
  shows "save_repayment_date str_other self fn tid args WriteOk w =
     (w\<lparr>ctx := (ctx w)\<lparr>messages := messages (ctx w) @
                    [\<lparr>role = ''system'', content = closing_prompt t (py_str str_other d)\<rparr>],
                  tools := []\<rparr>,
        trace := trace w @
          [StoreUpdate ''users'' (customer_id self) (commitment_update d a (overdue_amount self)),
           ProcessFrame (OpenAILLMContextFrame ((ctx w)\<lparr>messages := messages (ctx w) @
                    [\<lparr>role = ''system'', content = closing_prompt t (py_str str_other d)\<rparr>],
                  tools := []\<rparr>)) DOWNSTREAM]\<rparr>, None)"
  using assms by (simp add: save_repayment_date_def add_message_def set_tools_def Let_def)

lemma sublist_skip: "sublist xs ys \<Longrightarrow> sublist xs (ps @ ys)"
  unfolding sublist_def by (metis append_assoc)

lemma closing_mentions_amount: "sublist t (closing_prompt t d)"
  unfolding closing_prompt_def
  by (rule sublist_skip, rule sublist_skip, rule sublist_append_rightI)

lemma closing_mentions_date: "sublist d (closing_prompt t d)"
  unfolding closing_prompt_def
  by (rule sublist_skip, rule sublist_skip, rule sublist_skip, rule sublist_skip,
      rule sublist_append_rightI)

lemma commitment_update_fields:
  "map_of (commitment_update d a ov) ''promised_repayment_date'' = Some (Val d)"
  "map_of (commitment_update d a ov) ''promised_amount'' = Some (Val a)"
  "map_of (commitment_update d a ov) ''overdue_amount'' = Some (Val (JNum ov))"
  "map_of (commitment_update d a ov) ''commitment_made_at'' = Some SERVER_TIMESTAMP"
  "map_of (commitment_update d a ov) ''last_contact'' = Some SERVER_TIMESTAMP"
  "map_of (commitment_update d a ov) ''contact_type'' = Some (Val (JStr ''phone_call''))"
  "map_of (commitment_update d a ov) ''commitment_status'' = Some (Val (JStr ''pending''))"
  "map_of (commitment_update d a ov) ''payment_history'' =
     Some (ArrayUnion [MapValue [(''date'', SERVER_TIMESTAMP), (''promised_date'', Val d),
       (''promised_amount'', Val a), (''status'', Val (JStr ''pending''))]])"
  by (simp_all add: commitment_update_def)

lemma save_missing_date:
  "args ''repayment_date'' = None \<Longrightarrow>
   save_repayment_date str_other self fn tid args outcome w = (w, Some (KeyError ''repayment_date''))"
  by (simp add: save_repayment_date_def)

lemma save_missing_amount:
  "args ''repayment_date'' = Some d \<Longrightarrow> args ''amount'' = None \<Longrightarrow>
   save_repayment_date str_other self fn tid args outcome w = (w, Some (KeyError ''amount''))"
  by (simp add: save_repayment_date_def)

lemma save_write_fails:
  "args ''repayment_date'' = Some d \<Longrightarrow> args ''amount'' = Some a \<Longrightarrow>
   save_repayment_date str_other self fn tid args WriteFails w = (w, Some StoreError)"
  by (simp add: save_repayment_date_def)

lemma save_format_fails:
  "args ''repayment_date'' = Some d \<Longrightarrow> args ''amount'' = Some a \<Longrightarrow> py_format_money a = Inl e \<Longrightarrow>
   save_repayment_date str_other self fn tid args WriteOk w =
     (w\<lparr>trace := trace w @
         [StoreUpdate ''users'' (customer_id self) (commitment_update d a (overdue_amount self))]\<rparr>,
      Some e)"
  by (simp add: save_repayment_date_def Let_def)

lemma args0_date: "args0 ''repayment_date'' = Some (JStr ''2025-03-01'')"
  by (simp add: args0_def)

lemma args0_amount: "args0 ''amount'' = Some (JNum 500)"
  by (simp add: args0_def)

lemma py_format_money_500: "py_format_money (JNum 500) = Inr ''500.00''"
  by (simp add: format_money_500)

text \<open>The handler has no guard of its own: called twice, it writes twice.\<close>

lemma handler_keeps_no_counter:
  assumes "args ''repayment_date'' = Some d" and "args ''amount'' = Some a"
    and "py_format_money a = Inr t"
  shows "store_writes (trace (fst (save_repayment_date str_other self fn tid' args WriteOk
           (fst (save_repayment_date str_other self fn tid args WriteOk w))))) =
         store_writes (trace w) @
           [StoreUpdate ''users'' (customer_id self) (commitment_update d a (overdue_amount self)),
            StoreUpdate ''users'' (customer_id self) (commitment_update d a (overdue_amount self))]"
  by (simp add: save_ok [OF assms] store_writes_def)

text \<open>
  An amount that is a string is written as it is; the call then fails while the closing
  instruction is formatted, with the tools still in place.
\<close>

lemma string_amount_written_then_fails:
  assumes "args ''repayment_date'' = Some d" and "args ''amount'' = Some (JStr s)"
  shows "save_repayment_date str_other self fn tid args WriteOk w =
     (w\<lparr>trace := trace w @
         [StoreUpdate ''users'' (customer_id self)
            (commitment_update d (JStr s) (overdue_amount self))]\<rparr>,
      Some ValueError)"
  using assms by (simp add: save_format_fails)

text \<open>
  An integer amount too large for a float is written as it is; the call then fails with
  OverflowError while the closing instruction is formatted.
\<close>

lemma int_amount_written_then_overflows:
  assumes "args ''repayment_date'' = Some d" and "args ''amount'' = Some (JInt i)"
    and "float_of_int i = None"
  shows "save_repayment_date str_other self fn tid args WriteOk w =
     (w\<lparr>trace := trace w @
         [StoreUpdate ''users'' (customer_id self)
            (commitment_update d (JInt i) (overdue_amount self))]\<rparr>,
      Some OverflowError)"
  using assms by (simp add: save_format_fails)


text \<open>The client refuses the dict of the handler, whatever the arguments.\<close>

lemma payment_history_not_plain:
  "\<not> list_all field_value (map snd (commitment_update d a ov))"
  by (simp add: commitment_update_def)

lemma client_refuses_commitment_update:
  "client_update (commitment_update d a ov) answer = WriteFails"
  by (simp add: client_update_def payment_history_not_plain)

lemma answer_of_client_present:
  "args ''repayment_date'' = Some d \<Longrightarrow> args ''amount'' = Some a \<Longrightarrow>
   answer_of_client self args answer = WriteFails"
  by (simp add: answer_of_client_def client_refuses_commitment_update)

section \<open>The claims about the handler\<close>

text \<open>
  C4. For every customer id, name and overdue amount, constructing the handler appends
  exactly one message, of role system, at the end of the message sequence, and leaves
  exactly one tool schema, named save_repayment_date, whose required parameters are
  repayment_date and amount. Construction touches the context only: the trace of store
  and pipeline effects is as before. Nothing requires the amount to be positive.
\<close>

theorem construction_seeds_context:
  "messages (snd (CollectionProcessor_init c cid customer_name amt)) =
     messages c @ [\<lparr>role = ''system'', content = persona_prompt customer_name amt\<rparr>]
   \<and> tools (snd (CollectionProcessor_init c cid customer_name amt)) = [save_repayment_date_schema]
   \<and> tool_name save_repayment_date_schema = Some (JStr ''save_repayment_date'')
   \<and> tool_required save_repayment_date_schema = Some (JArr [JStr ''repayment_date'', JStr ''amount''])
   \<and> trace (snd (construct cid customer_name amt w)) = trace w"
  by (simp add: init_context tool_name_schema tool_required_schema construct_def split_def)

text \<open>
  C1, at the call with repayment_date 2025-03-01 and amount 500.0 for overdue amount
  25000. The dict that the handler builds puts \<open>SERVER_TIMESTAMP\<close> inside the element of
  the \<open>ArrayUnion\<close> (lines 103 to 108), whatever the arguments. The client cannot encode
  it, so \<open>update\<close> raises before any request, also when the store would accept: nothing
  is written, no message is appended, the tools stay and no frame is forwarded.
\<close>

theorem commitment_update_never_reaches_store:
  "client_update (commitment_update d a ov) answer = WriteFails
   \<and> answer_of_client chad args0 WriteOk = WriteFails
   \<and> save_repayment_date (\<lambda>v. []) chad ''save_repayment_date'' ''call_1'' args0
        (answer_of_client chad args0 WriteOk) w0 = (w0, Some StoreError)"
proof -
  have r: "answer_of_client chad args0 WriteOk = WriteFails"
    by (rule answer_of_client_present [OF args0_date args0_amount])
  show ?thesis
    unfolding r
    by (simp add: client_refuses_commitment_update save_write_fails [OF args0_date args0_amount])
qed

text \<open>
  C3. When both arguments are present and the store rejects the write, the handler
  returns the store's error and the world is exactly as before the call: no message
  appended, the tool list unchanged, no frame handed to the model service. The service
  that called the handler sees the exception.
\<close>

theorem store_failure_aborts_invocation:
  assumes "args ''repayment_date'' = Some d" and "args ''amount'' = Some a"
  shows "save_repayment_date str_other self fn tid args WriteFails w = (w, Some StoreError)
   \<and> deliver str_other fn tid args WriteFails w = w\<lparr>trace := trace w @ [Raised StoreError]\<rparr>"
  using assms by (simp add: save_write_fails deliver_def)

theorem store_failure_aborts_invocation_witness:
  "save_repayment_date (\<lambda>v. []) chad ''save_repayment_date'' ''call_1'' args0 WriteFails w0 = (w0, Some StoreError)
   \<and> deliver (\<lambda>v. []) ''save_repayment_date'' ''call_1'' args0 WriteFails w0 = w0\<lparr>trace := [Raised StoreError]\<rparr>"
proof -
  have d: "args0 ''repayment_date'' = Some (JStr ''2025-03-01'')"
    by (simp add: args0_def)
  have a: "args0 ''amount'' = Some (JNum 500)"
    by (simp add: args0_def)
  show ?thesis
    using store_failure_aborts_invocation [OF d a, of "\<lambda>v. []" chad "''save_repayment_date''" "''call_1''" w0]
    by (simp add: w0_def)
qed



text \<open>
  C7. Whenever a call of the handler hands a frame to the model service, the store had
  accepted the write just before, nothing else happened in between or after, and the
  frame carries the context that already ends with the closing instruction and has no
  tools.
\<close>

theorem frame_forwarded_only_after_write:
  assumes "save_repayment_date str_other self fn tid args outcome w = (w', err)"
    and "new_effects w w' = pre @ ProcessFrame f dir # post"
  shows "outcome = WriteOk \<and> err = None
    \<and> (\<exists>d a t. args ''repayment_date'' = Some d \<and> args ''amount'' = Some a
          \<and> py_format_money a = Inr t
          \<and> pre = [StoreUpdate ''users'' (customer_id self)
                     (commitment_update d a (overdue_amount self))]
          \<and> messages (ctx w') = messages (ctx w) @
                [\<lparr>role = ''system'', content = closing_prompt t (py_str str_other d)\<rparr>])
    \<and> post = [] \<and> dir = DOWNSTREAM \<and> f = OpenAILLMContextFrame (ctx w')
    \<and> tools (ctx w') = []"
proof (cases "args ''repayment_date''")
  case None
  with assms show ?thesis
    by (simp add: save_missing_date new_effects_def)
next
  case (Some d)
  note d = this
  show ?thesis
  proof (cases "args ''amount''")
    case None
    with d assms show ?thesis
      by (simp add: save_missing_amount new_effects_def)
  next
    case (Some a)
    note a = this
    show ?thesis
    proof (cases outcome)
      case WriteFails
      with d a assms show ?thesis
        by (simp add: save_write_fails new_effects_def)
    next
      case WriteOk
      note ok = this
      show ?thesis
      proof (cases "py_format_money a")
        case (Inl e)
        with d a ok assms show ?thesis
          by (auto simp: save_format_fails new_effects_def Cons_eq_append_conv)
      next
        case (Inr t)
        with d a ok assms show ?thesis
          by (auto simp: save_ok new_effects_def Cons_eq_append_conv append_eq_Cons_conv)
      qed
    qed
  qed
qed

theorem frame_forwarded_only_after_write_witness:
  "new_effects w0 (fst (save_repayment_date (\<lambda>v. []) chad ''save_repayment_date'' ''call_1'' args0 WriteOk w0)) =
     [StoreUpdate ''users'' ''chad_bailey'' (commitment_update (JStr ''2025-03-01'') (JNum 500) 25000)] @
     ProcessFrame (OpenAILLMContextFrame
        \<lparr>messages = [\<lparr>role = ''system'', content = closing_prompt ''500.00'' ''2025-03-01''\<rparr>],
         tools = []\<rparr>) DOWNSTREAM # []
   \<and> tools (ctx (fst (save_repayment_date (\<lambda>v. []) chad ''save_repayment_date'' ''call_1'' args0 WriteOk w0))) = []"
proof -
  have d: "args0 ''repayment_date'' = Some (JStr ''2025-03-01'')"
    by (simp add: args0_def)
  have a: "args0 ''amount'' = Some (JNum 500)"
    by (simp add: args0_def)
  have f: "py_format_money (JNum 500) = Inr ''500.00''"
    by (simp add: format_money_500)
  have r: "save_repayment_date (\<lambda>v. []) chad ''save_repayment_date'' ''call_1'' args0 WriteOk w0 =
     (\<lparr>ctx = \<lparr>messages = [\<lparr>role = ''system'', content = closing_prompt ''500.00'' ''2025-03-01''\<rparr>],
              tools = []\<rparr>,
       trace =
         [StoreUpdate ''users'' ''chad_bailey''
            (commitment_update (JStr ''2025-03-01'') (JNum 500) 25000),
          ProcessFrame (OpenAILLMContextFrame
            \<lparr>messages = [\<lparr>role = ''system'', content = closing_prompt ''500.00'' ''2025-03-01''\<rparr>],
             tools = []\<rparr>) DOWNSTREAM]\<rparr>, None)"
    using save_ok [OF d a f, of "\<lambda>v. []" chad "''save_repayment_date''" "''call_1''" w0]
    by (simp add: w0_def chad_def)
  have n: "new_effects w0 (fst (save_repayment_date (\<lambda>v. []) chad ''save_repayment_date'' ''call_1'' args0 WriteOk w0)) =
     [StoreUpdate ''users'' ''chad_bailey'' (commitment_update (JStr ''2025-03-01'') (JNum 500) 25000)] @
     ProcessFrame (OpenAILLMContextFrame
        \<lparr>messages = [\<lparr>role = ''system'', content = closing_prompt ''500.00'' ''2025-03-01''\<rparr>],
         tools = []\<rparr>) DOWNSTREAM # []"
    unfolding r by (simp add: new_effects_def w0_def)
  from frame_forwarded_only_after_write [OF _ n, of "\<lambda>v. []" chad "''save_repayment_date''" "''call_1''" args0 WriteOk None] r n
  show ?thesis
    by simp
qed

section \<open>The program as a whole, event by event\<close>

lemma main_collection_eq:
  "main_collection = \<lparr>customer_id = ''chad_bailey'', overdue_amount = 25000\<rparr>"
  by (simp add: main_collection_def main_setup_def split_def init_object
      main_customer_id_def main_overdue_amount_def)

lemma main_world_eq: "main_world = \<lparr>ctx = connected_context, trace = []\<rparr>"
  by (simp add: main_world_def main_setup_def split_def init_context connected_context_def)

lemma connect_eq:
  "on_client_connected client w =
     w\<lparr>ctx := connected_context,
       trace := trace w @ [QueueFrames [OpenAILLMContextFrame connected_context]]\<rparr>"
proof -
  have "snd (CollectionProcessor_init (messages_clear (ctx w)) main_customer_id
               main_customer_name main_overdue_amount) = connected_context"
    by (simp add: init_context messages_clear_def connected_context_def)
  then show ?thesis
    by (simp add: on_client_connected_def split_def)
qed

lemma advertised_connected: "advertised connected_context registered_name"
  by (simp add: advertised_def connected_context_def tool_name_schema registered_name_def)

lemma not_advertised_empty: "tools c = [] \<Longrightarrow> \<not> advertised c fn"
  by (simp add: advertised_def)

lemma deliver_ok:
  assumes "args ''repayment_date'' = Some d" and "args ''amount'' = Some a"
    and "py_format_money a = Inr t"
  shows "deliver str_other fn tid args WriteOk w =
     w\<lparr>ctx := (ctx w)\<lparr>messages := messages (ctx w) @
                    [\<lparr>role = ''system'', content = closing_prompt t (py_str str_other d)\<rparr>],
                  tools := []\<rparr>,
        trace := trace w @
          [StoreUpdate ''users'' ''chad_bailey'' (commitment_update d a 25000),
           ProcessFrame (OpenAILLMContextFrame ((ctx w)\<lparr>messages := messages (ctx w) @
                    [\<lparr>role = ''system'', content = closing_prompt t (py_str str_other d)\<rparr>],
                  tools := []\<rparr>)) DOWNSTREAM]\<rparr>"
  by (simp add: deliver_def save_ok [OF assms] main_collection_eq)




lemma run_append: "run str_other (es @ es') w = run str_other es' (run str_other es w)"
  by (induction es arbitrary: w) simp_all

lemma step_no_call:
  "\<not> is_function_call e \<Longrightarrow>
   store_writes (trace (step str_other e w)) = store_writes (trace w)"
  by (cases e) (simp_all add: connect_eq on_client_disconnected_def store_writes_def)

lemma run_no_call:
  "\<forall>e\<in>set es. \<not> is_function_call e \<Longrightarrow>
   store_writes (trace (run str_other es w)) = store_writes (trace w)"
  by (induction es arbitrary: w) (simp_all add: step_no_call)





lemmas deliver_args0 = deliver_ok [OF args0_date args0_amount py_format_money_500]

lemma two_calls_writes:
  "store_writes (trace (run str_other two_calls main_world)) =
     [StoreUpdate ''users'' ''chad_bailey''
        (commitment_update (JStr ''2025-03-01'') (JNum 500) 25000),
      StoreUpdate ''users'' ''chad_bailey''
        (commitment_update (JStr ''2025-03-01'') (JNum 500) 25000)]"
  by (simp add: two_calls_def main_world_eq connect_eq advertised_connected deliver_args0
      on_client_disconnected_def store_writes_def)

section \<open>The claims about a run\<close>




text \<open>
  C5, as the code has it. Clearing at connect empties the message list only: on the
  context that \<open>main\<close> leaves, the tool schema is still there after the clearing.
\<close>

theorem clearing_keeps_tools:
  "messages (messages_clear (ctx main_world)) = []
   \<and> tools (messages_clear (ctx main_world)) = [save_repayment_date_schema]"
  by (simp add: main_world_eq messages_clear_def connected_context_def)

text \<open>
  C5, amended. On every connect the message list of the context is emptied before the
  new system message is appended, and the tools are left as they were by the clearing;
  the constructor then replaces them by the one schema. After the connect handler, and
  whatever happened before it, the context holds exactly the new system message and the
  one schema.
\<close>

theorem connect_resets_messages:
  "messages (messages_clear (ctx w)) = []
   \<and> tools (messages_clear (ctx w)) = tools (ctx w)
   \<and> messages (ctx (on_client_connected client w)) =
       [\<lparr>role = ''system'', content = persona_prompt ''Chad Bailey'' 25000\<rparr>]
   \<and> tools (ctx (on_client_connected client w)) = [save_repayment_date_schema]
   \<and> ctx (run str_other (es @ [ClientConnected client]) w) = connected_context"
  by (simp add: messages_clear_def connect_eq run_append connected_context_def
      main_customer_name_def main_overdue_amount_def)

theorem connect_resets_messages_witness:
  "messages (ctx (run (\<lambda>v. [])
      ([ClientConnected 1, Aggregated user_says, ClientDisconnected 1] @ [ClientConnected 2])
      main_world)) =
     [\<lparr>role = ''system'', content = persona_prompt ''Chad Bailey'' 25000\<rparr>]
   \<and> messages (ctx (run (\<lambda>v. [])
      [ClientConnected 1, Aggregated user_says, ClientDisconnected 1] main_world)) =
     [\<lparr>role = ''system'', content = persona_prompt ''Chad Bailey'' 25000\<rparr>, user_says]"
proof -
  have b: "messages (ctx (run (\<lambda>v. [])
      [ClientConnected 1, Aggregated user_says, ClientDisconnected 1] main_world)) =
     [\<lparr>role = ''system'', content = persona_prompt ''Chad Bailey'' 25000\<rparr>, user_says]"
    by (simp add: main_world_eq connect_eq on_client_disconnected_def add_message_def
        connected_context_def main_customer_name_def main_overdue_amount_def)
  from connect_resets_messages
    [of main_world 2 "\<lambda>v. []" "[ClientConnected 1, Aggregated user_says, ClientDisconnected 1]"] b
  show ?thesis
    by (simp add: connected_context_def main_customer_name_def main_overdue_amount_def)
qed

text \<open>
  C8. A run without function calls issues no store update. A connect followed by a
  disconnect adds to the trace exactly the queued context frame and the queued end
  frame, and leaves the freshly seeded context.
\<close>

theorem no_call_no_write:
  assumes "\<forall>e\<in>set es. \<not> is_function_call e"
  shows "store_writes (trace (run str_other es w)) = store_writes (trace w)
   \<and> trace (run str_other [ClientConnected client, ClientDisconnected client'] w) =
       trace w @ [QueueFrames [OpenAILLMContextFrame connected_context], QueueFrames [EndFrame]]
   \<and> ctx (run str_other [ClientConnected client, ClientDisconnected client'] w) =
       connected_context"
  using assms by (simp add: run_no_call connect_eq on_client_disconnected_def)

theorem no_call_no_write_witness:
  "store_writes (trace (run (\<lambda>v. []) [ClientConnected 1, ClientDisconnected 1] main_world)) = []
   \<and> trace (run (\<lambda>v. []) [ClientConnected 1, ClientDisconnected 1] main_world) =
       [QueueFrames [OpenAILLMContextFrame connected_context], QueueFrames [EndFrame]]"
proof -
  have n: "\<forall>e\<in>set [ClientConnected 1, ClientDisconnected 1]. \<not> is_function_call e"
    by simp
  have e: "trace main_world = []"
    by (simp add: main_world_eq)
  from no_call_no_write [OF n, of "\<lambda>v. []" main_world 1 1] e show ?thesis
    by (simp add: store_writes_def)
qed



text \<open>
  C10. The constructor sets the tool list to the one schema whatever it was before, so
  after every connect the tool is advertised again, also when an earlier call had
  emptied the list.
\<close>

theorem connect_restores_tool:
  "tools (snd (CollectionProcessor_init c cid customer_name amt)) = [save_repayment_date_schema]
   \<and> tools (ctx (on_client_connected client w)) = [save_repayment_date_schema]
   \<and> advertised (ctx (on_client_connected client w)) registered_name"
  by (simp add: init_context connect_eq advertised_connected) (simp add: connected_context_def)

theorem connect_restores_tool_witness:
  "tools (ctx (run (\<lambda>v. []) (take 3 two_calls) main_world)) = []
   \<and> tools (ctx (run (\<lambda>v. []) (take 4 two_calls) main_world)) = [save_repayment_date_schema]
   \<and> advertised (ctx (run (\<lambda>v. []) (take 4 two_calls) main_world)) registered_name
   \<and> length (store_writes (trace (run (\<lambda>v. []) (take 4 two_calls) main_world))) = 1
   \<and> length (store_writes (trace (run (\<lambda>v. []) two_calls main_world))) = 2"
proof -
  have r3: "tools (ctx (run (\<lambda>v. []) (take 3 two_calls) main_world)) = []"
    by (simp add: two_calls_def main_world_eq connect_eq advertised_connected deliver_args0
        on_client_disconnected_def)
  have r4: "run (\<lambda>v. []) (take 4 two_calls) main_world =
            on_client_connected 2 (run (\<lambda>v. []) (take 3 two_calls) main_world)"
    by (simp add: two_calls_def)
  have w4: "length (store_writes (trace (run (\<lambda>v. []) (take 4 two_calls) main_world))) = 1"
    by (simp add: two_calls_def main_world_eq connect_eq advertised_connected deliver_args0
        on_client_disconnected_def store_writes_def)
  from connect_restores_tool [of _ _ _ _ 2 "run (\<lambda>v. []) (take 3 two_calls) main_world"]
    r3 r4 w4 two_calls_writes [of "\<lambda>v. []"]
  show ?thesis
    by simp
qed

end
